theory Spec2Isabelle
  imports Main "HOL-Library.Sublist"
begin

section \<open>Data model (frontend/src/types/index.ts)\<close>

text \<open>
  The TypeScript interfaces become records. A field \<open>T | null\<close> and an optional field
  \<open>f?: T\<close> become \<open>T option\<close>. A \<open>number\<close> that holds a salary or a score is an
  \<open>int\<close>: salaries are whole amounts; \<open>NaN\<close> and fractions are outside the model, and
  where a result depends on the rounding of doubles (from \<open>2 ^ 53\<close> upward) it is left
  open, as said at the definition concerned.
  \<open>Record<string, string>\<close> is a map. Field names that several interfaces share, or
  that clash with a HOL constant or an Isar keyword, get a prefix.
\<close>

record SalaryRange =
  range_min :: "int option"
  range_max :: "int option"

record Job =
  job_job_id :: string
  title :: string
  company :: string
  location :: string
  remote_status :: string
  salary_range :: SalaryRange
  job_type :: string
  posted_date :: "string option"
  description :: string
  requirements :: "string list"
  responsibilities :: "string list"
  application_url :: string
  source_url :: string
  scraped_at :: string
  job_status :: string

record TimelineEntry =
  entry_status :: string
  date :: string
  entry_note :: string

text \<open>
  \<open>Application.status\<close> is declared as a union of six string literals, but
  \<open>handleUpdateStatus\<close> stores any \<open>string\<close> through the unchecked cast
  \<open>status as Application['status']\<close>, so the field holds a string at run time.
\<close>

record Application =
  app_id :: string
  job_id :: string
  user_id :: string
  status :: string
  match_score :: int
  tailored_resume :: string
  cover_letter :: string
  form_answers :: "string \<rightharpoonup> string"
  submitted_at :: "string option"
  timeline :: "TimelineEntry list"
  job :: "Job option"

section \<open>Status update and notes (frontend/src/pages/Applications.tsx)\<close>

text \<open>
  \<open>note || `Status changed to ${status}`\<close>: the fallback is taken when the note is
  \<open>undefined\<close> (the argument was left out) or the empty string, both falsy.
\<close>

definition note_or_default :: "string option \<Rightarrow> string \<Rightarrow> string" where
  "note_or_default note st =
     (case note of
        None \<Rightarrow> ''Status changed to '' @ st
      | Some n \<Rightarrow> if n \<noteq> [] then n else ''Status changed to '' @ st)"

text \<open>
  \<open>handleUpdateStatus\<close> maps over the previous list of the component state. The callback
  reads the clock (\<open>new Date().toISOString()\<close>) each time it rebuilds an application;
  \<open>clock i\<close> is the reading taken while the element at index \<open>i\<close> is visited.
  Nothing is validated and nothing can fail: the result is again a list.
\<close>

definition handleUpdateStatus ::
  "(nat \<Rightarrow> string) \<Rightarrow> string \<Rightarrow> string \<Rightarrow> string option \<Rightarrow> Application list \<Rightarrow> Application list" where
  "handleUpdateStatus clock appId st note prev =
     map (\<lambda>(i, app).
            if app_id app = appId
            then app\<lparr>status := st,
                     timeline := timeline app @
                       [\<lparr>entry_status = st, date = clock i,
                         entry_note = note_or_default note st\<rparr>]\<rparr>
            else app)
         (enumerate 0 prev)"

definition handleAddNote ::
  "(nat \<Rightarrow> string) \<Rightarrow> string \<Rightarrow> string \<Rightarrow> Application list \<Rightarrow> Application list" where
  "handleAddNote clock appId note prev =
     map (\<lambda>(i, app).
            if app_id app = appId
            then app\<lparr>timeline := timeline app @
                       [\<lparr>entry_status = status app, date = clock i, entry_note = note\<rparr>]\<rparr>
            else app)
         (enumerate 0 prev)"

text \<open>
  \<open>filteredApplications\<close>: a non-empty string is truthy, the empty string is falsy.
\<close>

definition filteredApplications :: "string \<Rightarrow> Application list \<Rightarrow> Application list" where
  "filteredApplications statusFilter applications =
     (if statusFilter \<noteq> [] then filter (\<lambda>app. status app = statusFilter) applications
      else applications)"

section \<open>Salary rendering (frontend/src/components/JobCard.tsx)\<close>

text \<open>The decimal digits of a natural number, most significant first.\<close>

fun decimal :: "nat \<Rightarrow> string" where
  "decimal n =
     (if n < 10 then [''0123456789'' ! n]
      else decimal (n div 10) @ [''0123456789'' ! (n mod 10)])"

declare decimal.simps [simp del]

text \<open>
  \<open>(x / 1000).toFixed(0)\<close> for an integer \<open>x\<close> of magnitude below \<open>2 ^ 53\<close>, where the
  division of doubles cannot move the quotient across a tie: \<open>toFixed\<close> takes the sign
  off, rounds the magnitude to the nearest integer with ties going up, and puts the sign
  back, so a negative amount above \<open>-500\<close> renders as \<open>-0\<close>.
\<close>

definition exact_thousands :: "int \<Rightarrow> string" where
  "exact_thousands x =
     (if x < 0 then ''-'' @ decimal ((nat (- x) + 500) div 1000)
      else decimal ((nat x + 500) div 1000))"

text \<open>
  From \<open>2 ^ 53\<close> upward the digits printed are those of the nearest double, and from
  \<open>10 ^ 21\<close> the notation has an exponent. Doubles are not modelled: what is printed
  there is the parameter \<open>beyond\<close>, about which nothing is assumed.
\<close>

definition thousands :: "(int \<Rightarrow> string) \<Rightarrow> int \<Rightarrow> string" where
  "thousands beyond x = (if abs x < 2 ^ 53 then exact_thousands x else beyond x)"

text \<open>JavaScript truthiness of a \<open>number | null\<close>: \<open>null\<close> and \<open>0\<close> are falsy.\<close>

definition truthy :: "int option \<Rightarrow> bool" where
  "truthy v = (case v of None \<Rightarrow> False | Some x \<Rightarrow> x \<noteq> 0)"

text \<open>
  \<open>null\<close> in arithmetic converts to \<open>0\<close>; \<open>range.max!\<close> only silences the type
  checker. The argument \<open>range\<close> is written \<open>rng\<close>, since \<open>range\<close> is a HOL constant.
\<close>

definition to_number :: "int option \<Rightarrow> int" where
  "to_number v = (case v of None \<Rightarrow> 0 | Some x \<Rightarrow> x)"

definition formatSalary :: "(int \<Rightarrow> string) \<Rightarrow> SalaryRange \<Rightarrow> string" where
  "formatSalary beyond rng =
     (if \<not> truthy (range_min rng) \<and> \<not> truthy (range_max rng) then ''Not specified''
      else if truthy (range_min rng) \<and> truthy (range_max rng)
        then ''$'' @ thousands beyond (to_number (range_min rng)) @ ''k - $'' @
             thousands beyond (to_number (range_max rng)) @ ''k''
      else if truthy (range_min rng)
        then ''$'' @ thousands beyond (to_number (range_min rng)) @ ''k+''
      else ''Up to $'' @ thousands beyond (to_number (range_max rng)) @ ''k'')"

section \<open>Mock data of the Applications page\<close>

text \<open>The four entries of \<open>mockApplications\<close>, with the jobs they embed.\<close>

definition mock_job1 :: Job where
  "mock_job1 =
     \<lparr>job_job_id = ''1'', title = ''Senior Software Engineer'', company = ''TechCorp Inc'',
      location = ''San Francisco, CA'', remote_status = ''hybrid'',
      salary_range = \<lparr>range_min = Some 150000, range_max = Some 200000\<rparr>,
      job_type = ''full-time'', posted_date = Some ''2024-01-05'', description = [],
      requirements = [], responsibilities = [], application_url = [], source_url = [],
      scraped_at = [], job_status = ''matched''\<rparr>"

definition mock_job2 :: Job where
  "mock_job2 =
     \<lparr>job_job_id = ''2'', title = ''Full Stack Developer'', company = ''StartupXYZ'',
      location = ''Remote'', remote_status = ''remote'',
      salary_range = \<lparr>range_min = Some 120000, range_max = Some 160000\<rparr>,
      job_type = ''full-time'', posted_date = Some ''2024-01-08'', description = [],
      requirements = [], responsibilities = [], application_url = [], source_url = [],
      scraped_at = [], job_status = ''matched''\<rparr>"

definition mock_job3 :: Job where
  "mock_job3 =
     \<lparr>job_job_id = ''3'', title = ''Backend Engineer'', company = ''BigTech Corp'',
      location = ''New York, NY'', remote_status = ''hybrid'',
      salary_range = \<lparr>range_min = Some 140000, range_max = Some 180000\<rparr>,
      job_type = ''full-time'', posted_date = Some ''2024-01-01'', description = [],
      requirements = [], responsibilities = [], application_url = [], source_url = [],
      scraped_at = [], job_status = ''applied''\<rparr>"

definition mock_job4 :: Job where
  "mock_job4 =
     \<lparr>job_job_id = ''4'', title = ''DevOps Engineer'', company = ''CloudNine'',
      location = ''Austin, TX'', remote_status = ''onsite'',
      salary_range = \<lparr>range_min = Some 130000, range_max = Some 170000\<rparr>,
      job_type = ''full-time'', posted_date = Some ''2023-12-28'', description = [],
      requirements = [], responsibilities = [], application_url = [], source_url = [],
      scraped_at = [], job_status = ''applied''\<rparr>"

definition mock_app1 :: Application where
  "mock_app1 =
     \<lparr>app_id = ''app1'', job_id = ''1'', user_id = ''user1'', status = ''interview'',
      match_score = 92, tailored_resume = ''Tailored resume content...'',
      cover_letter = ''Cover letter content...'', form_answers = Map.empty,
      submitted_at = Some ''2024-01-10T10:00:00Z'',
      timeline =
        [\<lparr>entry_status = ''preparing'', date = ''2024-01-08T10:00:00Z'',
          entry_note = ''Application created''\<rparr>,
         \<lparr>entry_status = ''submitted'', date = ''2024-01-10T10:00:00Z'',
          entry_note = ''Application submitted''\<rparr>,
         \<lparr>entry_status = ''interview'', date = ''2024-01-15T10:00:00Z'',
          entry_note = ''Interview scheduled for Jan 20''\<rparr>],
      job = Some mock_job1\<rparr>"

definition mock_app2 :: Application where
  "mock_app2 =
     \<lparr>app_id = ''app2'', job_id = ''2'', user_id = ''user1'', status = ''submitted'',
      match_score = 87, tailored_resume = ''Tailored resume content...'',
      cover_letter = ''Cover letter content...'', form_answers = Map.empty,
      submitted_at = Some ''2024-01-12T10:00:00Z'',
      timeline =
        [\<lparr>entry_status = ''preparing'', date = ''2024-01-11T10:00:00Z'',
          entry_note = ''Application created''\<rparr>,
         \<lparr>entry_status = ''submitted'', date = ''2024-01-12T10:00:00Z'',
          entry_note = ''Application submitted''\<rparr>],
      job = Some mock_job2\<rparr>"

definition mock_app3 :: Application where
  "mock_app3 =
     \<lparr>app_id = ''app3'', job_id = ''3'', user_id = ''user1'', status = ''offer'',
      match_score = 78, tailored_resume = ''Tailored resume content...'',
      cover_letter = ''Cover letter content...'', form_answers = Map.empty,
      submitted_at = Some ''2024-01-05T10:00:00Z'',
      timeline =
        [\<lparr>entry_status = ''preparing'', date = ''2024-01-04T10:00:00Z'',
          entry_note = ''Application created''\<rparr>,
         \<lparr>entry_status = ''submitted'', date = ''2024-01-05T10:00:00Z'',
          entry_note = ''Application submitted''\<rparr>,
         \<lparr>entry_status = ''interview'', date = ''2024-01-10T10:00:00Z'',
          entry_note = ''First interview completed''\<rparr>,
         \<lparr>entry_status = ''interview'', date = ''2024-01-14T10:00:00Z'',
          entry_note = ''Final interview completed''\<rparr>,
         \<lparr>entry_status = ''offer'', date = ''2024-01-16T10:00:00Z'',
          entry_note = ''Received offer! $165k base + equity''\<rparr>],
      job = Some mock_job3\<rparr>"

definition mock_app4 :: Application where
  "mock_app4 =
     \<lparr>app_id = ''app4'', job_id = ''4'', user_id = ''user1'', status = ''rejected'',
      match_score = 65, tailored_resume = [], cover_letter = [],
      form_answers = Map.empty, submitted_at = Some ''2024-01-03T10:00:00Z'',
      timeline =
        [\<lparr>entry_status = ''submitted'', date = ''2024-01-03T10:00:00Z'',
          entry_note = ''Application submitted''\<rparr>,
         \<lparr>entry_status = ''rejected'', date = ''2024-01-08T10:00:00Z'',
          entry_note = ''Position filled''\<rparr>],
      job = Some mock_job4\<rparr>"

definition mockApplications :: "Application list" where
  "mockApplications = [mock_app1, mock_app2, mock_app3, mock_app4]"

text \<open>A clock that shows the same reading at every visit of one call.\<close>

definition constant_clock :: "string \<Rightarrow> nat \<Rightarrow> string" where
  "constant_clock t i = t"

section \<open>The lifecycle as the specification words it\<close>

text \<open>
  The allowed-edges table of the specification, written down from its words for
  comparison with the handlers above; the front-end code holds no such table.
\<close>

definition lifecycle_edges :: "(string \<times> string) list" where
  "lifecycle_edges =
     [(''preparing'', ''ready''), (''ready'', ''submitted''),
      (''submitted'', ''interview''), (''interview'', ''offer''),
      (''interview'', ''rejected''), (''submitted'', ''rejected''),
      (''ready'', ''rejected''), (''preparing'', ''rejected'')]"

definition allowed_edge :: "string \<Rightarrow> string \<Rightarrow> bool" where
  "allowed_edge old new = ((old, new) \<in> set lifecycle_edges)"

text \<open>
  Sequences of lifecycle operations on the applications list: each operation is one call
  of a handler, with the clock readings of that call.
\<close>

datatype lifecycle_op =
    UpdateStatus "nat \<Rightarrow> string" string string "string option"
  | AddNote "nat \<Rightarrow> string" string string

fun apply_op :: "lifecycle_op \<Rightarrow> Application list \<Rightarrow> Application list" where
  "apply_op (UpdateStatus clock appId st note) apps = handleUpdateStatus clock appId st note apps"
| "apply_op (AddNote clock appId note) apps = handleAddNote clock appId note apps"

fun run_ops :: "lifecycle_op list \<Rightarrow> Application list \<Rightarrow> Application list" where
  "run_ops [] apps = apps"
| "run_ops (op # ops) apps = run_ops ops (apply_op op apps)"

text \<open>The status asked for by the last status update of a sequence that targets \<open>appId\<close>.\<close>

fun last_requested :: "string \<Rightarrow> lifecycle_op list \<Rightarrow> string option" where
  "last_requested appId [] = None"
| "last_requested appId (UpdateStatus clock a st note # ops) =
     (case last_requested appId ops of
        Some s \<Rightarrow> Some s
      | None \<Rightarrow> if a = appId then Some st else None)"
| "last_requested appId (AddNote clock a note # ops) = last_requested appId ops"




section \<open>The orchestrator, from the specification\<close>

text \<open>
  Modelled from the spec: the repository's sources here are the front end only; the
  pipeline orchestrator, its envelope, its store and its errors are described in the
  specification (sections 3, 4.1, 4.2, 7) and in the README's agent output format.
  Opaque objects (\<open>output_data\<close>, \<open>pass_data\<close>, the writes of \<open>save_to_memory\<close>) are
  lists of key/value texts.
\<close>

type_synonym data = "(string \<times> string) list"

text \<open>Modelled from the spec: the Envelope of section 3, field by field.\<close>

record Envelope =
  agent :: string
  action :: string
  output_data :: data
  next_agent :: "string option"
  pass_data :: data
  save_to_memory :: "(string \<times> string) list"

text \<open>Modelled from the spec: the error taxonomy of section 7.\<close>

datatype error =
    InvalidKey
  | UnknownCapability string
  | PipelineOverrun
  | Transient string
  | Permanent string
  | IllegalTransition string string

text \<open>
  Modelled from the spec: the SharedMemoryStore of section 4.1, a mapping from
  \<open>(user_id, key)\<close> to a value, with \<open>get\<close> and \<open>merge\<close>. What makes a key malformed
  is not said, so the test is the parameter \<open>valid\<close>; a merge with a malformed key fails
  with \<open>InvalidKey\<close> and applies nothing.
\<close>

type_synonym store = "string \<times> string \<rightharpoonup> string"

definition get :: "store \<Rightarrow> string \<Rightarrow> string \<Rightarrow> string option" where
  "get st uid key = st (uid, key)"

definition merge ::
  "(string \<Rightarrow> bool) \<Rightarrow> store \<Rightarrow> string \<Rightarrow> (string \<times> string) list \<Rightarrow> error + store" where
  "merge valid st uid writes =
     (if list_all (\<lambda>(k, v). valid k) writes
      then Inr (foldl (\<lambda>s (k, v). s((uid, k) \<mapsto> v)) st writes)
      else Inl InvalidKey)"

text \<open>
  Modelled from the spec: the context of a hop (section 4.2, step c) is the snapshot of
  the user's store entries with the incoming \<open>pass_data\<close>. A Capability is one operation
  \<open>process\<close> that returns an Envelope or raises \<open>Transient\<close> or \<open>Permanent\<close>; it may
  call external collaborators, so its outcome may change from one attempt to the next:
  the first argument is the number of the attempt.
\<close>

record Context =
  store_snapshot :: "string \<rightharpoonup> string"
  ctx_pass_data :: data

type_synonym Capability = "nat \<Rightarrow> Context \<Rightarrow> error + Envelope"

text \<open>
  Modelled from the spec: a transient failure is retried up to a bounded count before the
  run fails; a permanent failure aborts at once. The backoff delays are time and are
  left out.
\<close>

fun invoke :: "Capability \<Rightarrow> Context \<Rightarrow> nat \<Rightarrow> nat \<Rightarrow> error + Envelope" where
  "invoke cap ctx attempt 0 = cap attempt ctx"
| "invoke cap ctx attempt (Suc retries_left) =
     (case cap attempt ctx of
        Inl (Transient reason) \<Rightarrow> invoke cap ctx (Suc attempt) retries_left
      | outcome \<Rightarrow> outcome)"

text \<open>Modelled from the spec: the configured hop ceiling (default 32) and retry bound.\<close>

record Config =
  hop_ceiling :: nat
  max_retries :: nat
  valid_key :: "string \<Rightarrow> bool"

definition default_hop_ceiling :: nat where
  "default_hop_ceiling = 32"

text \<open>
  Modelled from the spec: what the loop of section 4.2 maintains: the store, the pending
  \<open>next_agent\<close> and \<open>pass_data\<close>, the hop counter, the visited set and the result log of
  \<open>(agent, action, output_data)\<close>.
\<close>

record RunState =
  run_store :: store
  pending_agent :: "string option"
  pending_data :: data
  hops :: nat
  visited :: "string list"
  run_log :: "(string \<times> string \<times> data) list"

text \<open>
  Modelled from the spec: a run returns the envelope log and the final store; a failed
  run reports its error with the partial log intact.
\<close>

datatype RunResult =
    Completed "(string \<times> string \<times> data) list" store
  | Failed error "(string \<times> string \<times> data) list" store

text \<open>
  Modelled from the spec: steps e, f and g of section 4.2 after a hop by \<open>name\<close> that
  returned \<open>env\<close> and whose writes merged into \<open>store'\<close>.
\<close>

definition hop_done :: "RunState \<Rightarrow> string \<Rightarrow> Envelope \<Rightarrow> store \<Rightarrow> RunState" where
  "hop_done st name env store' =
     \<lparr>run_store = store',
      pending_agent = next_agent env,
      pending_data = pass_data env,
      hops = Suc (hops st),
      visited = List.insert name (visited st),
      run_log = run_log st @ [(agent env, action env, output_data env)]\<rparr>"

text \<open>
  Modelled from the spec: the loop of section 4.2, steps 2a to 2g and 3. The loop is
  written as the specification has it, with no fuel of its own: a run that never
  returned would have the value \<open>None\<close>.
\<close>

partial_function (option) run_loop ::
  "Config \<Rightarrow> (string \<rightharpoonup> Capability) \<Rightarrow> string \<Rightarrow> RunState \<Rightarrow> RunResult option" where
  "run_loop cfg registry uid st =
     (case pending_agent st of
        None \<Rightarrow> Some (Completed (run_log st) (run_store st))
      | Some name \<Rightarrow>
          if hop_ceiling cfg < hops st
          then Some (Failed PipelineOverrun (run_log st) (run_store st))
          else
            (case registry name of
               None \<Rightarrow> Some (Failed (UnknownCapability name) (run_log st) (run_store st))
             | Some cap \<Rightarrow>
                 (case invoke cap \<lparr>store_snapshot = get (run_store st) uid,
                                   ctx_pass_data = pending_data st\<rparr> 0 (max_retries cfg) of
                    Inl e \<Rightarrow> Some (Failed e (run_log st) (run_store st))
                  | Inr env \<Rightarrow>
                      (case merge (valid_key cfg) (run_store st) uid (save_to_memory env) of
                         Inl e \<Rightarrow> Some (Failed e (run_log st) (run_store st))
                       | Inr store' \<Rightarrow>
                           run_loop cfg registry uid (hop_done st name env store')))))"

text \<open>
  Modelled from the spec: \<open>run(initial_envelope, registry)\<close>; the user whose store
  entries the hops see and the store at the start are further arguments.
\<close>

definition run ::
  "Config \<Rightarrow> Envelope \<Rightarrow> (string \<rightharpoonup> Capability) \<Rightarrow> string \<Rightarrow> store \<Rightarrow> RunResult option" where
  "run cfg initial_envelope registry uid store0 =
     run_loop cfg registry uid
       \<lparr>run_store = store0, pending_agent = next_agent initial_envelope,
        pending_data = pass_data initial_envelope, hops = 0, visited = [], run_log = []\<rparr>"

text \<open>
  A chain that never ends: every registered capability succeeds at every attempt, names
  a registered capability as the next one, and writes only well-formed keys.
\<close>

definition chain_never_ends :: "Config \<Rightarrow> (string \<rightharpoonup> Capability) \<Rightarrow> bool" where
  "chain_never_ends cfg registry =
     (\<forall>name cap attempt ctx. registry name = Some cap \<longrightarrow>
        (case cap attempt ctx of
           Inl e \<Rightarrow> False
         | Inr env \<Rightarrow>
             (case next_agent env of None \<Rightarrow> False | Some n \<Rightarrow> registry n \<noteq> None) \<and>
             list_all (\<lambda>(k, v). valid_key cfg k) (save_to_memory env)))"

text \<open>
  A cyclic registry of two agents of the README's table: the matcher hands over to the
  tracker and the tracker hands back.
\<close>

definition matcher_capability :: Capability where
  "matcher_capability attempt ctx =
     Inr \<lparr>agent = ''MATCHER_AGENT'', action = ''scored jobs'', output_data = [],
          next_agent = Some ''TRACKER_AGENT'', pass_data = ctx_pass_data ctx,
          save_to_memory = [(''last_match'', ''done'')]\<rparr>"

definition tracker_capability :: Capability where
  "tracker_capability attempt ctx =
     Inr \<lparr>agent = ''TRACKER_AGENT'', action = ''tracked applications'', output_data = [],
          next_agent = Some ''MATCHER_AGENT'', pass_data = ctx_pass_data ctx,
          save_to_memory = []\<rparr>"

definition cyclic_registry :: "string \<rightharpoonup> Capability" where
  "cyclic_registry =
     [''MATCHER_AGENT'' \<mapsto> matcher_capability, ''TRACKER_AGENT'' \<mapsto> tracker_capability]"

definition nonempty_key :: "string \<Rightarrow> bool" where
  "nonempty_key k = (k \<noteq> [])"

definition default_config :: Config where
  "default_config =
     \<lparr>hop_ceiling = default_hop_ceiling, max_retries = 3, valid_key = nonempty_key\<rparr>"

definition start_envelope :: Envelope where
  "start_envelope =
     \<lparr>agent = ''CALLER'', action = ''start'', output_data = [],
      next_agent = Some ''MATCHER_AGENT'', pass_data = [], save_to_memory = []\<rparr>"

section \<open>Element-wise behaviour of the two handlers\<close>

lemma length_handleUpdateStatus:
  "length (handleUpdateStatus clock appId st note prev) = length prev"
  by (simp add: handleUpdateStatus_def)

lemma length_handleAddNote:
  "length (handleAddNote clock appId note prev) = length prev"
  by (simp add: handleAddNote_def)

lemma nth_handleUpdateStatus:
  assumes "i < length prev"
  shows "handleUpdateStatus clock appId st note prev ! i =
           (if app_id (prev ! i) = appId
            then (prev ! i)\<lparr>status := st,
                   timeline := timeline (prev ! i) @
                     [\<lparr>entry_status = st, date = clock i,
                       entry_note = note_or_default note st\<rparr>]\<rparr>
            else prev ! i)"
  using assms by (simp add: handleUpdateStatus_def nth_enumerate_eq)

lemma nth_handleAddNote:
  assumes "i < length prev"
  shows "handleAddNote clock appId note prev ! i =
           (if app_id (prev ! i) = appId
            then (prev ! i)\<lparr>timeline := timeline (prev ! i) @
                     [\<lparr>entry_status = status (prev ! i), date = clock i,
                       entry_note = note\<rparr>]\<rparr>
            else prev ! i)"
  using assms by (simp add: handleAddNote_def nth_enumerate_eq)

section \<open>Illegal edges\<close>

text \<open>
  Claim C1, as amended. The status update validates nothing and has no failure result:
  on an edge that is not in the allowed-edges table it does what it does on any edge.
  The targeted application gets the requested status and one more timeline entry (with
  the clock reading and the note, or the default text when the note is missing or
  empty); every other field keeps its value.
\<close>

theorem illegal_edge_is_applied:
  assumes "i < length prev" and "app_id (prev ! i) = appId"
    and "\<not> allowed_edge (status (prev ! i)) st"
  shows "handleUpdateStatus clock appId st note prev ! i =
           (prev ! i)\<lparr>status := st,
              timeline := timeline (prev ! i) @
                [\<lparr>entry_status = st, date = clock i,
                  entry_note =
                    (case note of
                       None \<Rightarrow> ''Status changed to '' @ st
                     | Some n \<Rightarrow> if n = [] then ''Status changed to '' @ st else n)\<rparr>]\<rparr>"
  using assms by (simp add: nth_handleUpdateStatus note_or_default_def split: option.splits)

text \<open>
  The amended claim at the first mock application, which is in \<open>interview\<close>, moved back
  to \<open>submitted\<close>.
\<close>

theorem illegal_edge_is_applied_witness:
  "(0::nat) < length [mock_app1] \<and> app_id ([mock_app1] ! 0) = ''app1'' \<and>
   \<not> allowed_edge (status ([mock_app1] ! 0)) ''submitted'' \<and>
   handleUpdateStatus (constant_clock ''2024-01-20T09:00:00.000Z'') ''app1'' ''submitted'' None
       [mock_app1] ! 0 =
     mock_app1\<lparr>status := ''submitted'',
        timeline := timeline mock_app1 @
          [\<lparr>entry_status = ''submitted'', date = ''2024-01-20T09:00:00.000Z'',
            entry_note = ''Status changed to submitted''\<rparr>]\<rparr>"
proof -
  have a: "(0::nat) < length [mock_app1]" by simp
  have b: "app_id ([mock_app1] ! 0) = ''app1''" by (simp add: mock_app1_def)
  have c: "\<not> allowed_edge (status ([mock_app1] ! 0)) ''submitted''"
    by (simp add: allowed_edge_def lifecycle_edges_def mock_app1_def)
  show ?thesis
    using a b c
      illegal_edge_is_applied [OF a b c, of "constant_clock ''2024-01-20T09:00:00.000Z''" None]
    by (simp add: constant_clock_def)
qed

text \<open>
  Claim C1 as written fails: the edge from \<open>interview\<close> to \<open>submitted\<close> is not in the
  table, and the update goes through; the application is not left as it was.
\<close>

theorem illegal_edge_counterexample:
  "\<not> allowed_edge (status mock_app1) ''submitted'' \<and>
   handleUpdateStatus (constant_clock ''2024-01-20T09:00:00.000Z'') ''app1'' ''submitted'' None
       [mock_app1] =
     [mock_app1\<lparr>status := ''submitted'',
        timeline := timeline mock_app1 @
          [\<lparr>entry_status = ''submitted'', date = ''2024-01-20T09:00:00.000Z'',
            entry_note = ''Status changed to submitted''\<rparr>]\<rparr>] \<and>
   handleUpdateStatus (constant_clock ''2024-01-20T09:00:00.000Z'') ''app1'' ''submitted'' None
       [mock_app1] \<noteq> [mock_app1]"
  by (simp add: allowed_edge_def lifecycle_edges_def handleUpdateStatus_def mock_app1_def
        constant_clock_def note_or_default_def)

section \<open>The rejected status\<close>

lemma length_apply_op: "length (apply_op op apps) = length apps"
  by (cases op) (simp_all add: length_handleUpdateStatus length_handleAddNote)

lemma app_id_apply_op:
  "i < length apps \<Longrightarrow> app_id (apply_op op apps ! i) = app_id (apps ! i)"
  by (cases op) (simp_all add: nth_handleUpdateStatus nth_handleAddNote)

lemma status_apply_op:
  "i < length apps \<Longrightarrow>
   status (apply_op op apps ! i) =
     (case last_requested (app_id (apps ! i)) [op] of
        None \<Rightarrow> status (apps ! i) | Some s \<Rightarrow> s)"
  by (cases op) (simp_all add: nth_handleUpdateStatus nth_handleAddNote)

lemma last_requested_Cons:
  "last_requested a (op # ops) =
     (case last_requested a ops of Some s \<Rightarrow> Some s | None \<Rightarrow> last_requested a [op])"
  by (cases op) (simp_all split: option.splits)

text \<open>
  Claim C2, as amended. No status is absorbing under the status update. After any
  sequence of status updates and notes, an application has the status asked for by the
  last status update that targeted it, and its initial status when none did; so a
  rejected application stays rejected exactly as long as no later update asks for
  another status. Notes never change a status.
\<close>

theorem status_after_ops:
  "i < length apps \<Longrightarrow>
   status (run_ops ops apps ! i) =
     (case last_requested (app_id (apps ! i)) ops of
        None \<Rightarrow> status (apps ! i) | Some s \<Rightarrow> s)"
proof (induction ops arbitrary: apps)
  case Nil
  then show ?case by simp
next
  case (Cons op ops)
  have len: "i < length (apply_op op apps)"
    using Cons.prems by (simp add: length_apply_op)
  have "status (run_ops (op # ops) apps ! i) = status (run_ops ops (apply_op op apps) ! i)"
    by simp
  also have "\<dots> = (case last_requested (app_id (apply_op op apps ! i)) ops of
                      None \<Rightarrow> status (apply_op op apps ! i) | Some s \<Rightarrow> s)"
    using Cons.IH [OF len] .
  also have "\<dots> = (case last_requested (app_id (apps ! i)) (op # ops) of
                      None \<Rightarrow> status (apps ! i) | Some s \<Rightarrow> s)"
    using Cons.prems
    by (simp add: app_id_apply_op status_apply_op last_requested_Cons [of _ op ops]
          split: option.splits)
  finally show ?case .
qed

text \<open>
  The amended claim on the mock list: the fourth application is rejected; a note, an
  update to \<open>offer\<close> and another note leave it in \<open>offer\<close>.
\<close>

theorem status_after_ops_witness:
  "(3::nat) < length mockApplications \<and>
   status (mockApplications ! 3) = ''rejected'' \<and>
   status (run_ops
             [AddNote (constant_clock ''2024-01-20T09:00:00.000Z'') ''app4'' ''Called back'',
              UpdateStatus (constant_clock ''2024-01-21T09:00:00.000Z'') ''app4'' ''offer'' None,
              AddNote (constant_clock ''2024-01-22T09:00:00.000Z'') ''app4'' ''Negotiating'']
             mockApplications ! 3) = ''offer''"
proof -
  have a: "(3::nat) < length mockApplications" by (simp add: mockApplications_def)
  show ?thesis
    using a
      status_after_ops [OF a, of
        "[AddNote (constant_clock ''2024-01-20T09:00:00.000Z'') ''app4'' ''Called back'',
          UpdateStatus (constant_clock ''2024-01-21T09:00:00.000Z'') ''app4'' ''offer'' None,
          AddNote (constant_clock ''2024-01-22T09:00:00.000Z'') ''app4'' ''Negotiating'']"]
    by (simp add: mockApplications_def mock_app4_def)
qed

text \<open>
  Claim C2 as written fails: the rejected mock application leaves \<open>rejected\<close> with one
  status update, which the status menu offers for every application.
\<close>

theorem rejected_not_absorbing_counterexample:
  "status mock_app4 = ''rejected'' \<and>
   status (hd (run_ops
                 [UpdateStatus (constant_clock ''2024-01-20T09:00:00.000Z'') ''app4'' ''offer'' None]
                 [mock_app4])) = ''offer''"
  by (simp add: handleUpdateStatus_def mock_app4_def)

section \<open>Legal transitions\<close>

text \<open>
  Claim C3, as amended. On a legal edge the status update sets the status to the new
  one and appends exactly one timeline entry after the prior entries, which stay as they
  were and in order. The entry has the new status and the clock reading; its note is the
  supplied note when that is a non-empty string, and the text
  \<open>Status changed to <new status>\<close> when the note is missing or empty. No other field
  changes.
\<close>

theorem legal_transition_appends_one_entry:
  assumes "i < length prev" and "app_id (prev ! i) = appId"
    and "allowed_edge (status (prev ! i)) st"
  shows "status (handleUpdateStatus clock appId st note prev ! i) = st \<and>
         timeline (handleUpdateStatus clock appId st note prev ! i) =
           timeline (prev ! i) @
             [\<lparr>entry_status = st, date = clock i,
               entry_note =
                 (case note of
                    None \<Rightarrow> ''Status changed to '' @ st
                  | Some n \<Rightarrow> if n = [] then ''Status changed to '' @ st else n)\<rparr>] \<and>
         (handleUpdateStatus clock appId st note prev ! i)
             \<lparr>status := status (prev ! i), timeline := timeline (prev ! i)\<rparr> = prev ! i"
  using assms by (simp add: nth_handleUpdateStatus note_or_default_def split: option.splits)

text \<open>
  The amended claim at the second mock application, moved from \<open>submitted\<close> to
  \<open>interview\<close> with a note.
\<close>

theorem legal_transition_appends_one_entry_witness:
  "(1::nat) < length mockApplications \<and> app_id (mockApplications ! 1) = ''app2'' \<and>
   allowed_edge (status (mockApplications ! 1)) ''interview'' \<and>
   status (handleUpdateStatus (constant_clock ''2024-01-20T09:00:00.000Z'') ''app2''
             ''interview'' (Some ''Phone screen booked'') mockApplications ! 1) = ''interview'' \<and>
   timeline (handleUpdateStatus (constant_clock ''2024-01-20T09:00:00.000Z'') ''app2''
               ''interview'' (Some ''Phone screen booked'') mockApplications ! 1) =
     timeline mock_app2 @
       [\<lparr>entry_status = ''interview'', date = ''2024-01-20T09:00:00.000Z'',
         entry_note = ''Phone screen booked''\<rparr>]"
proof -
  have a: "(1::nat) < length mockApplications" by (simp add: mockApplications_def)
  have b: "app_id (mockApplications ! 1) = ''app2''"
    by (simp add: mockApplications_def mock_app2_def)
  have c: "allowed_edge (status (mockApplications ! 1)) ''interview''"
    by (simp add: allowed_edge_def lifecycle_edges_def mockApplications_def mock_app2_def)
  have d: "mockApplications ! 1 = mock_app2" by (simp add: mockApplications_def)
  show ?thesis
    using a b c d
      legal_transition_appends_one_entry [OF a b c,
        of "constant_clock ''2024-01-20T09:00:00.000Z''" "Some ''Phone screen booked''"]
    by (simp add: constant_clock_def)
qed

text \<open>
  Claim C3 as written fails for a supplied note that is empty: on the legal edge from
  \<open>submitted\<close> to \<open>interview\<close> the appended entry carries the default text, not the
  supplied note.
\<close>

theorem supplied_note_counterexample:
  "allowed_edge (status mock_app2) ''interview'' \<and>
   entry_note (last (timeline (hd (handleUpdateStatus
       (constant_clock ''2024-01-20T09:00:00.000Z'') ''app2'' ''interview'' (Some [])
       [mock_app2])))) = ''Status changed to interview'' \<and>
   entry_note (last (timeline (hd (handleUpdateStatus
       (constant_clock ''2024-01-20T09:00:00.000Z'') ''app2'' ''interview'' (Some [])
       [mock_app2])))) \<noteq> []"
  by (simp add: allowed_edge_def lifecycle_edges_def handleUpdateStatus_def mock_app2_def
        constant_clock_def note_or_default_def)

section \<open>The order of timestamps\<close>





section \<open>Notes\<close>

text \<open>
  Claim C5. Adding a note cannot fail: the handler returns the list, of the same
  length, for every note. The targeted application gets exactly one more timeline entry,
  after the prior ones, with the application's current status, the clock reading and the
  given note as it is; its status is unchanged, and putting the old timeline back gives
  the old application, so no other field has changed.
\<close>

theorem add_note_appends_current_status:
  assumes "i < length prev" and "app_id (prev ! i) = appId"
  shows "length (handleAddNote clock appId note prev) = length prev \<and>
         timeline (handleAddNote clock appId note prev ! i) =
           timeline (prev ! i) @
             [\<lparr>entry_status = status (prev ! i), date = clock i, entry_note = note\<rparr>] \<and>
         status (handleAddNote clock appId note prev ! i) = status (prev ! i) \<and>
         (handleAddNote clock appId note prev ! i)\<lparr>timeline := timeline (prev ! i)\<rparr> = prev ! i"
  using assms by (simp add: nth_handleAddNote length_handleAddNote)

text \<open>The claim at the first mock application, which is in \<open>interview\<close>.\<close>

theorem add_note_appends_current_status_witness:
  "(0::nat) < length mockApplications \<and> app_id (mockApplications ! 0) = ''app1'' \<and>
   length (handleAddNote (constant_clock ''2024-01-20T09:00:00.000Z'') ''app1''
             ''Sent thank-you mail'' mockApplications) = 4 \<and>
   timeline (handleAddNote (constant_clock ''2024-01-20T09:00:00.000Z'') ''app1''
               ''Sent thank-you mail'' mockApplications ! 0) =
     timeline mock_app1 @
       [\<lparr>entry_status = ''interview'', date = ''2024-01-20T09:00:00.000Z'',
         entry_note = ''Sent thank-you mail''\<rparr>] \<and>
   status (handleAddNote (constant_clock ''2024-01-20T09:00:00.000Z'') ''app1''
             ''Sent thank-you mail'' mockApplications ! 0) = ''interview''"
proof -
  have a: "(0::nat) < length mockApplications" by (simp add: mockApplications_def)
  have b: "app_id (mockApplications ! 0) = ''app1''"
    by (simp add: mockApplications_def mock_app1_def)
  have c: "mockApplications ! 0 = mock_app1" "length mockApplications = 4"
    by (simp_all add: mockApplications_def)
  have d: "status mock_app1 = ''interview''" by (simp add: mock_app1_def)
  show ?thesis
    using a b c d
      add_note_appends_current_status [OF a b,
        of "constant_clock ''2024-01-20T09:00:00.000Z''" "''Sent thank-you mail''"]
    by (simp add: constant_clock_def)
qed

section \<open>Untargeted applications\<close>

text \<open>
  Claim C8. Both handlers keep the length of the list and the order of the
  applications (the list of their ids is the same), and every application whose id
  differs from the targeted one is exactly the application that was at its position
  before.
\<close>

theorem untargeted_entries_unchanged:
  "length (handleUpdateStatus clock appId st note prev) = length prev \<and>
   length (handleAddNote clock appId body prev) = length prev \<and>
   map app_id (handleUpdateStatus clock appId st note prev) = map app_id prev \<and>
   map app_id (handleAddNote clock appId body prev) = map app_id prev \<and>
   (\<forall>i < length prev. app_id (prev ! i) \<noteq> appId \<longrightarrow>
      handleUpdateStatus clock appId st note prev ! i = prev ! i \<and>
      handleAddNote clock appId body prev ! i = prev ! i)"
  by (auto simp: length_handleUpdateStatus length_handleAddNote nth_handleUpdateStatus
        nth_handleAddNote intro!: nth_equalityI)

text \<open>
  The claim on the mock list with the second application targeted: the third one is
  untouched by both handlers.
\<close>

theorem untargeted_entries_unchanged_witness:
  "(2::nat) < length mockApplications \<and> app_id (mockApplications ! 2) \<noteq> ''app2'' \<and>
   handleUpdateStatus (constant_clock ''2024-01-20T09:00:00.000Z'') ''app2'' ''interview'' None
       mockApplications ! 2 = mock_app3 \<and>
   handleAddNote (constant_clock ''2024-01-20T09:00:00.000Z'') ''app2'' ''Recruiter replied''
       mockApplications ! 2 = mock_app3"
proof -
  have a: "(2::nat) < length mockApplications" by (simp add: mockApplications_def)
  have b: "app_id (mockApplications ! 2) \<noteq> ''app2''"
    by (simp add: mockApplications_def mock_app3_def)
  have c: "mockApplications ! 2 = mock_app3" by (simp add: mockApplications_def)
  from untargeted_entries_unchanged
         [of "constant_clock ''2024-01-20T09:00:00.000Z''" "''app2''" "''interview''" None
             mockApplications "''Recruiter replied''"]
  have "\<forall>i < length mockApplications. app_id (mockApplications ! i) \<noteq> ''app2'' \<longrightarrow>
          handleUpdateStatus (constant_clock ''2024-01-20T09:00:00.000Z'') ''app2''
              ''interview'' None mockApplications ! i = mockApplications ! i \<and>
          handleAddNote (constant_clock ''2024-01-20T09:00:00.000Z'') ''app2''
              ''Recruiter replied'' mockApplications ! i = mockApplications ! i"
    by blast
  with a b have
    "handleUpdateStatus (constant_clock ''2024-01-20T09:00:00.000Z'') ''app2''
         ''interview'' None mockApplications ! 2 = mockApplications ! 2 \<and>
     handleAddNote (constant_clock ''2024-01-20T09:00:00.000Z'') ''app2''
         ''Recruiter replied'' mockApplications ! 2 = mockApplications ! 2"
    by blast
  with a b c show ?thesis by simp
qed

section \<open>The status filter\<close>

text \<open>
  Claim C9. With the empty filter the page shows the whole list. With any other filter
  value it shows a subsequence of the list (so the original order is kept) in which an
  application of the list occurs exactly when its status equals the filter value, and
  which has as many entries as the list has positions with that status.
\<close>

theorem status_filter_exact:
  "filteredApplications [] applications = applications \<and>
   (statusFilter \<noteq> [] \<longrightarrow>
      subseq (filteredApplications statusFilter applications) applications \<and>
      (\<forall>app \<in> set applications.
         app \<in> set (filteredApplications statusFilter applications) \<longleftrightarrow>
         status app = statusFilter) \<and>
      length (filteredApplications statusFilter applications) =
        card {i. i < length applications \<and> status (applications ! i) = statusFilter})"
proof (intro conjI impI)
  show "filteredApplications [] applications = applications"
    by (simp add: filteredApplications_def)
next
  assume "statusFilter \<noteq> []"
  then have shown: "filteredApplications statusFilter applications =
                      filter (\<lambda>app. status app = statusFilter) applications"
    by (simp add: filteredApplications_def)
  show "subseq (filteredApplications statusFilter applications) applications"
    unfolding shown by (rule subseq_filter_left)
  show "\<forall>app \<in> set applications.
          app \<in> set (filteredApplications statusFilter applications) \<longleftrightarrow>
          status app = statusFilter"
    unfolding shown by simp
  show "length (filteredApplications statusFilter applications) =
          card {i. i < length applications \<and> status (applications ! i) = statusFilter}"
    unfolding shown by (rule length_filter_conv_card)
qed

text \<open>The claim on the mock list, filtered by \<open>offer\<close>: the third application alone.\<close>

theorem status_filter_exact_witness:
  "''offer'' \<noteq> [] \<and> mock_app3 \<in> set mockApplications \<and> status mock_app3 = ''offer'' \<and>
   mock_app3 \<in> set (filteredApplications ''offer'' mockApplications) \<and>
   subseq (filteredApplications ''offer'' mockApplications) mockApplications \<and>
   filteredApplications [] mockApplications = mockApplications"
proof -
  have a: "''offer'' \<noteq> []" by simp
  have b: "mock_app3 \<in> set mockApplications" by (simp add: mockApplications_def)
  have c: "status mock_app3 = ''offer''" by (simp add: mock_app3_def)
  from status_filter_exact [of mockApplications "''offer''"] a
  have d: "filteredApplications [] mockApplications = mockApplications"
    and e: "subseq (filteredApplications ''offer'' mockApplications) mockApplications"
    and f: "\<forall>app \<in> set mockApplications.
              app \<in> set (filteredApplications ''offer'' mockApplications) \<longleftrightarrow>
              status app = ''offer''"
    by blast+
  from f b c have "mock_app3 \<in> set (filteredApplications ''offer'' mockApplications)"
    by blast
  with a b c d e show ?thesis by blast
qed

section \<open>Salary bounds of zero\<close>

lemma falsy_iff: "\<not> truthy v \<longleftrightarrow> v = None \<or> v = Some 0"
  by (cases v) (simp_all add: truthy_def)

lemma truthy_without_zero: "truthy (if v = Some 0 then None else v) = truthy v"
  by (cases v) (simp_all add: truthy_def)

lemma to_number_without_zero: "to_number (if v = Some 0 then None else v) = to_number v"
  by (cases v) (simp_all add: to_number_def)

text \<open>
  Claim C10. \<open>formatSalary\<close> takes a bound of 0 for an absent bound, whatever is
  printed for amounts beyond \<open>2 ^ 53\<close>. It returns \<open>Not specified\<close> exactly when each
  of the two bounds is \<open>null\<close> or 0. Putting \<open>null\<close> in the place of every bound that
  is 0 leaves the result the same, for every range. A range with minimum 0 and no
  maximum renders as \<open>Not specified\<close>. A range with minimum 0 and a positive maximum
  renders one-sided, as \<open>Up to $Xk\<close>, the same as with no minimum, where \<open>X\<close> is the
  maximum in thousands, rounded (its exact decimal digits below \<open>2 ^ 53\<close>). A range with
  a minimum other than 0 and maximum 0 renders one-sided as well, as \<open>$Xk+\<close>.
\<close>

theorem zero_bound_is_absent:
  "(formatSalary beyond rng = ''Not specified'' \<longleftrightarrow>
      (range_min rng = None \<or> range_min rng = Some 0) \<and>
      (range_max rng = None \<or> range_max rng = Some 0)) \<and>
   formatSalary beyond
       (rng\<lparr>range_min := (if range_min rng = Some 0 then None else range_min rng),
            range_max := (if range_max rng = Some 0 then None else range_max rng)\<rparr>) =
     formatSalary beyond rng \<and>
   formatSalary beyond \<lparr>range_min = Some 0, range_max = None\<rparr> = ''Not specified'' \<and>
   (0 < m \<longrightarrow>
      formatSalary beyond \<lparr>range_min = Some 0, range_max = Some m\<rparr> =
        ''Up to $'' @ thousands beyond m @ ''k'' \<and>
      formatSalary beyond \<lparr>range_min = Some 0, range_max = Some m\<rparr> =
        formatSalary beyond \<lparr>range_min = None, range_max = Some m\<rparr> \<and>
      (m < 2 ^ 53 \<longrightarrow>
         formatSalary beyond \<lparr>range_min = Some 0, range_max = Some m\<rparr> =
           ''Up to $'' @ decimal ((nat m + 500) div 1000) @ ''k'')) \<and>
   (a \<noteq> 0 \<longrightarrow>
      formatSalary beyond \<lparr>range_min = Some a, range_max = Some 0\<rparr> =
        ''$'' @ thousands beyond a @ ''k+'' \<and>
      formatSalary beyond \<lparr>range_min = Some a, range_max = Some 0\<rparr> =
        formatSalary beyond \<lparr>range_min = Some a, range_max = None\<rparr>)"
proof (intro conjI impI)
  show "formatSalary beyond rng = ''Not specified'' \<longleftrightarrow>
          (range_min rng = None \<or> range_min rng = Some 0) \<and>
          (range_max rng = None \<or> range_max rng = Some 0)"
  proof (cases "\<not> truthy (range_min rng) \<and> \<not> truthy (range_max rng)")
    case True
    then show ?thesis by (simp add: formatSalary_def falsy_iff)
  next
    case False
    then have "formatSalary beyond rng \<noteq> ''Not specified''"
      by (auto simp: formatSalary_def)
    with False show ?thesis by (simp add: falsy_iff)
  qed
next
  show "formatSalary beyond
          (rng\<lparr>range_min := (if range_min rng = Some 0 then None else range_min rng),
               range_max := (if range_max rng = Some 0 then None else range_max rng)\<rparr>) =
        formatSalary beyond rng"
    by (simp add: formatSalary_def truthy_without_zero to_number_without_zero)
next
  show "formatSalary beyond \<lparr>range_min = Some 0, range_max = None\<rparr> = ''Not specified''"
    by (simp add: formatSalary_def truthy_def)
next
  assume "0 < m"
  then show "formatSalary beyond \<lparr>range_min = Some 0, range_max = Some m\<rparr> =
               ''Up to $'' @ thousands beyond m @ ''k''"
    by (simp add: formatSalary_def truthy_def to_number_def)
next
  assume "0 < m"
  then show "formatSalary beyond \<lparr>range_min = Some 0, range_max = Some m\<rparr> =
               formatSalary beyond \<lparr>range_min = None, range_max = Some m\<rparr>"
    by (simp add: formatSalary_def truthy_def to_number_def)
next
  assume "0 < m" and "m < 2 ^ 53"
  then show "formatSalary beyond \<lparr>range_min = Some 0, range_max = Some m\<rparr> =
               ''Up to $'' @ decimal ((nat m + 500) div 1000) @ ''k''"
    by (simp add: formatSalary_def truthy_def to_number_def thousands_def exact_thousands_def)
next
  assume "a \<noteq> 0"
  then show "formatSalary beyond \<lparr>range_min = Some a, range_max = Some 0\<rparr> =
               ''$'' @ thousands beyond a @ ''k+''"
    by (simp add: formatSalary_def truthy_def to_number_def)
next
  assume "a \<noteq> 0"
  then show "formatSalary beyond \<lparr>range_min = Some a, range_max = Some 0\<rparr> =
               formatSalary beyond \<lparr>range_min = Some a, range_max = None\<rparr>"
    by (simp add: formatSalary_def truthy_def to_number_def)
qed

text \<open>
  The claim at the ranges from 0 to 90000 and from 50000 to 0, with the exact digits
  taken beyond \<open>2 ^ 53\<close> too.
\<close>

theorem zero_bound_is_absent_witness:
  "(0::int) < 90000 \<and> (90000::int) < 2 ^ 53 \<and> (50000::int) \<noteq> 0 \<and>
   formatSalary exact_thousands \<lparr>range_min = Some 0, range_max = Some 90000\<rparr> =
     ''Up to $90k'' \<and>
   formatSalary exact_thousands \<lparr>range_min = None, range_max = Some 90000\<rparr> =
     ''Up to $90k'' \<and>
   formatSalary exact_thousands \<lparr>range_min = Some 50000, range_max = Some 0\<rparr> = ''$50k+'' \<and>
   formatSalary exact_thousands \<lparr>range_min = Some 50000, range_max = None\<rparr> = ''$50k+'' \<and>
   formatSalary exact_thousands \<lparr>range_min = Some 0, range_max = Some 0\<rparr> =
     ''Not specified''"
proof -
  have a: "(0::int) < 90000" and a': "(90000::int) < 2 ^ 53" and a'': "(50000::int) \<noteq> 0"
    by simp_all
  have b: "decimal ((nat 90000 + 500) div 1000) = ''90''" by (simp add: decimal.simps)
  have c: "thousands exact_thousands 50000 = ''50''"
    by (simp add: thousands_def exact_thousands_def decimal.simps)
  note law = zero_bound_is_absent
               [of exact_thousands "\<lparr>range_min = Some 0, range_max = Some 0\<rparr>" 90000 50000]
  from law a a' have up:
    "formatSalary exact_thousands \<lparr>range_min = Some 0, range_max = Some 90000\<rparr> =
       ''Up to $'' @ decimal ((nat 90000 + 500) div 1000) @ ''k''"
    by blast
  from law a have same_max:
    "formatSalary exact_thousands \<lparr>range_min = Some 0, range_max = Some 90000\<rparr> =
       formatSalary exact_thousands \<lparr>range_min = None, range_max = Some 90000\<rparr>"
    by blast
  from law a'' have plus:
    "formatSalary exact_thousands \<lparr>range_min = Some 50000, range_max = Some 0\<rparr> =
       ''$'' @ thousands exact_thousands 50000 @ ''k+''"
    and same_min:
    "formatSalary exact_thousands \<lparr>range_min = Some 50000, range_max = Some 0\<rparr> =
       formatSalary exact_thousands \<lparr>range_min = Some 50000, range_max = None\<rparr>"
    by blast+
  from law have none:
    "formatSalary exact_thousands \<lparr>range_min = Some 0, range_max = Some 0\<rparr> =
       ''Not specified''"
    by simp
  have up': "formatSalary exact_thousands \<lparr>range_min = Some 0, range_max = Some 90000\<rparr> =
               ''Up to $90k''"
    using up b by simp
  have plus': "formatSalary exact_thousands \<lparr>range_min = Some 50000, range_max = Some 0\<rparr> =
                 ''$50k+''"
    using plus c by simp
  show ?thesis
    using a a' a'' up' plus' none same_max [symmetric] same_min [symmetric]
    by (simp only: simp_thms)
qed

section \<open>Termination of the orchestrator's run\<close>

lemma invoke_success:
  "cap attempt ctx = Inr env \<Longrightarrow> invoke cap ctx attempt retries = Inr env"
  by (cases retries) simp_all

lemma run_loop_overrun:
  assumes "pending_agent st = Some name" and "hop_ceiling cfg < hops st"
  shows "run_loop cfg registry uid st =
           Some (Failed PipelineOverrun (run_log st) (run_store st))"
  using assms by (subst run_loop.simps) simp

lemma run_loop_continue:
  assumes "pending_agent st = Some name" and "\<not> hop_ceiling cfg < hops st"
    and "registry name = Some cap"
    and "invoke cap \<lparr>store_snapshot = get (run_store st) uid,
                      ctx_pass_data = pending_data st\<rparr> 0 (max_retries cfg) = Inr env"
    and "merge (valid_key cfg) (run_store st) uid (save_to_memory env) = Inr store'"
  shows "run_loop cfg registry uid st = run_loop cfg registry uid (hop_done st name env store')"
  using assms by (subst run_loop.simps) simp

text \<open>
  The loop returns from every state. The measure is the number of hops left below the
  ceiling: a state above the ceiling stops at once, and every hop uses one up.
\<close>

lemma run_loop_returns:
  "\<exists>r. run_loop cfg registry uid st = Some r"
proof (induction "Suc (hop_ceiling cfg) - hops st" arbitrary: st)
  case 0
  then have over: "hop_ceiling cfg < hops st" by simp
  show ?case
  proof (cases "pending_agent st")
    case None
    then show ?thesis by (subst run_loop.simps) simp
  next
    case (Some name)
    then show ?thesis using over by (simp add: run_loop_overrun)
  qed
next
  case (Suc n)
  have next_hop: "\<exists>r. run_loop cfg registry uid (hop_done st name env store') = Some r"
    for name env store'
  proof -
    have "n = Suc (hop_ceiling cfg) - hops (hop_done st name env store')"
      using Suc.hyps(2) by (simp add: hop_done_def)
    then show ?thesis by (rule Suc.hyps(1))
  qed
  show ?case
    by (subst run_loop.simps) (simp add: next_hop split: option.splits sum.splits)
qed

text \<open>
  On a chain that never ends, the loop can only stop at the ceiling: it fails with
  \<open>PipelineOverrun\<close>, after as many further hops as were left.
\<close>

lemma run_loop_cycle:
  assumes cyc: "chain_never_ends cfg registry"
  shows "pending_agent st = Some name \<Longrightarrow> registry name \<noteq> None \<Longrightarrow>
         hops st \<le> Suc (hop_ceiling cfg) \<Longrightarrow>
         \<exists>lg s. run_loop cfg registry uid st = Some (Failed PipelineOverrun lg s) \<and>
                length lg = length (run_log st) + (Suc (hop_ceiling cfg) - hops st)"
proof (induction "Suc (hop_ceiling cfg) - hops st" arbitrary: st name)
  case 0
  then have "hop_ceiling cfg < hops st" by simp
  with 0 show ?case by (simp add: run_loop_overrun)
next
  case (Suc n)
  from Suc.prems(2) obtain cap where cap: "registry name = Some cap" by auto
  let ?ctx = "\<lparr>store_snapshot = get (run_store st) uid, ctx_pass_data = pending_data st\<rparr>"
  from cyc cap obtain env nxt where
    env: "cap 0 ?ctx = Inr env" and nxt: "next_agent env = Some nxt" "registry nxt \<noteq> None"
    and keys: "list_all (\<lambda>(k, v). valid_key cfg k) (save_to_memory env)"
    unfolding chain_never_ends_def
    by (fastforce split: sum.splits option.splits)
  have inv: "invoke cap ?ctx 0 (max_retries cfg) = Inr env"
    using env by (rule invoke_success)
  obtain store' where
    mrg: "merge (valid_key cfg) (run_store st) uid (save_to_memory env) = Inr store'"
    using keys by (simp add: merge_def)
  have low: "\<not> hop_ceiling cfg < hops st" using Suc.hyps(2) by simp
  let ?st' = "hop_done st name env store'"
  have step: "run_loop cfg registry uid st = run_loop cfg registry uid ?st'"
    using Suc.prems(1) low cap inv mrg by (rule run_loop_continue)
  have m: "n = Suc (hop_ceiling cfg) - hops ?st'"
    using Suc.hyps(2) by (simp add: hop_done_def)
  have p: "pending_agent ?st' = Some nxt" using nxt(1) by (simp add: hop_done_def)
  have h: "hops ?st' \<le> Suc (hop_ceiling cfg)" using low by (simp add: hop_done_def)
  from Suc.hyps(1) [OF m p nxt(2) h] obtain lg s where
    "run_loop cfg registry uid ?st' = Some (Failed PipelineOverrun lg s)"
    "length lg = length (run_log ?st') + (Suc (hop_ceiling cfg) - hops ?st')"
    by blast
  then show ?case using step low by (auto simp: hop_done_def)
qed

text \<open>
  Claim C7. For every configuration, initial envelope, registry, user and store the
  run returns a result: it is a total function of its inputs, whatever the chain of
  \<open>next_agent\<close> names does. When the chain never ends (every hop succeeds and names a
  registered capability, as on a cycle), the result is the failure \<open>PipelineOverrun\<close>,
  reached when the hop counter exceeds the ceiling, with one log entry for each of the
  hops made until then: the ceiling plus one.
\<close>

theorem run_terminates:
  "(\<exists>r. run cfg initial_envelope registry uid store0 = Some r) \<and>
   (chain_never_ends cfg registry \<longrightarrow>
    (\<exists>name. next_agent initial_envelope = Some name \<and> registry name \<noteq> None) \<longrightarrow>
    (\<exists>lg s. run cfg initial_envelope registry uid store0 = Some (Failed PipelineOverrun lg s) \<and>
            length lg = Suc (hop_ceiling cfg)))"
proof (intro conjI impI)
  show "\<exists>r. run cfg initial_envelope registry uid store0 = Some r"
    unfolding run_def by (rule run_loop_returns)
next
  assume cyc: "chain_never_ends cfg registry"
    and "\<exists>name. next_agent initial_envelope = Some name \<and> registry name \<noteq> None"
  then obtain name where n: "next_agent initial_envelope = Some name" "registry name \<noteq> None"
    by blast
  let ?st = "\<lparr>run_store = store0, pending_agent = next_agent initial_envelope,
              pending_data = pass_data initial_envelope, hops = 0, visited = [], run_log = []\<rparr>"
  have "\<exists>lg s. run_loop cfg registry uid ?st = Some (Failed PipelineOverrun lg s) \<and>
          length lg = length (run_log ?st) + (Suc (hop_ceiling cfg) - hops ?st)"
    using n by (intro run_loop_cycle [OF cyc, of _ name]) simp_all
  then show "\<exists>lg s. run cfg initial_envelope registry uid store0 =
                 Some (Failed PipelineOverrun lg s) \<and> length lg = Suc (hop_ceiling cfg)"
    by (simp add: run_def)
qed

text \<open>
  The claim at the default ceiling of 32, on the registry in which the matcher and the
  tracker name each other: the run fails with \<open>PipelineOverrun\<close> after 33 hops.
\<close>

theorem run_terminates_witness:
  "chain_never_ends default_config cyclic_registry \<and>
   (\<exists>name. next_agent start_envelope = Some name \<and> cyclic_registry name \<noteq> None) \<and>
   (\<exists>r. run default_config start_envelope cyclic_registry ''user1'' Map.empty = Some r) \<and>
   (\<exists>lg s. run default_config start_envelope cyclic_registry ''user1'' Map.empty =
              Some (Failed PipelineOverrun lg s) \<and> length lg = 33)"
proof -
  have a: "chain_never_ends default_config cyclic_registry"
    by (simp add: chain_never_ends_def cyclic_registry_def default_config_def
          matcher_capability_def tracker_capability_def nonempty_key_def)
  have b: "\<exists>name. next_agent start_envelope = Some name \<and> cyclic_registry name \<noteq> None"
    by (simp add: start_envelope_def cyclic_registry_def)
  have c: "hop_ceiling default_config = 32"
    by (simp add: default_config_def default_hop_ceiling_def)
  show ?thesis
    using a b c
      run_terminates [of default_config start_envelope cyclic_registry "''user1''" Map.empty]
    by simp
qed

end
